theory Spec2Isabelle
  imports Complex_Main
begin

section \<open>Data model\<close>

text \<open>
  JavaScript numbers are modelled as \<^typ>\<open>real\<close>: arithmetic is exact, rounding is not
  modelled. The values a real cannot hold (NaN, the infinities) are made explicit at every
  division of the source: a division whose divisor is zero is a separate branch of the
  model, written out with what JavaScript does with the result there.

  An object literal \<^verbatim>\<open>{x, y}\<close> is a pair \<open>(x, y)\<close>. The \<^verbatim>\<open>vertices\<close> array of a
  triangle, which the default argument, the spread \<^verbatim>\<open>...verts\<close> and the loops
  \<^verbatim>\<open>i < 3\<close>, \<^verbatim>\<open>(i + 1) % 3\<close> all take to hold three points, is a triple.
\<close>

type_synonym vec = "real \<times> real"

type_synonym vertices = "vec \<times> vec \<times> vec"

text \<open>
  The three collider classes; the constructor arguments are in the
  order of the source: \<^verbatim>\<open>BoxCollider(offsetX, offsetY, width, height)\<close>,
  \<^verbatim>\<open>CircleCollider(offsetX, offsetY, radius)\<close>,
  \<^verbatim>\<open>TriangleCollider(vertices, offsetX, offsetY)\<close>.
\<close>

datatype collider =
    BoxCollider real real real real
  | CircleCollider real real real
  | TriangleCollider vertices real real


text \<open>
  The class \<^verbatim>\<open>GameObject\<close>. The fields \<^verbatim>\<open>x, y, width, height, vx, vy, ax, ay\<close> carry the
  prefix \<open>obj_\<close>, since the source uses the same short names for local variables; the
  other fields keep their names. A \<^verbatim>\<open>null\<close> collider is \<open>None\<close>.
\<close>

record gameobject =
  obj_x :: real
  obj_y :: real
  obj_width :: real
  obj_height :: real
  spriteSrc :: string
  color :: string
  hasGravity :: bool
  obj_vx :: real
  obj_vy :: real
  obj_ax :: real
  obj_ay :: real
  mass :: real
  forces :: "vec list"
  collider :: "collider option"
  rotation :: real

text \<open>
  What a call can end in besides a finite result. \<open>TypeError\<close> is the exception
  JavaScript raises on reading a property of \<^verbatim>\<open>null\<close>. \<open>NotFinite\<close> is not an exception:
  the source runs to its end there, having stored NaN or an infinity (the result of a
  division by zero) in a field of a body; the real-valued record has no value for
  such a field, so the model reports the call as \<open>Inl NotFinite\<close>.
\<close>

datatype error = TypeError | NotFinite

text \<open>
  The constructor of \<^verbatim>\<open>GameObject\<close>: the object after its six assignments. The fields it
  does not assign keep their class-field initialisers.
\<close>

definition GameObject_constructor ::
  "real \<Rightarrow> real \<Rightarrow> real \<Rightarrow> real \<Rightarrow> real \<Rightarrow> collider option \<Rightarrow> gameobject" where
  "GameObject_constructor x y width height m c =
     \<lparr> obj_x = x, obj_y = y, obj_width = width, obj_height = height,
       spriteSrc = [], color = ''#ffffff'', hasGravity = True,
       obj_vx = 0, obj_vy = 0, obj_ax = 0, obj_ay = 0,
       mass = m, forces = [], collider = c, rotation = 0 \<rparr>"

text \<open>
  The outcome of the expression \<^verbatim>\<open>new GameObject(x, y, width, height, mass, collider)\<close>.
  The constructor has no check and no \<^verbatim>\<open>throw\<close>, so every outcome is \<open>Inr\<close>.
\<close>

definition GameObject_new ::
  "real \<Rightarrow> real \<Rightarrow> real \<Rightarrow> real \<Rightarrow> real \<Rightarrow> collider option \<Rightarrow> error + gameobject" where
  "GameObject_new x y width height m c = Inr (GameObject_constructor x y width height m c)"

section \<open>Overlap tests\<close>

text \<open>\<^verbatim>\<open>verts[i]\<close> for \<open>i\<close> in 0, 1, 2, and the array as a list for \<^verbatim>\<open>for ... of\<close>.\<close>

fun vert :: "vertices \<Rightarrow> nat \<Rightarrow> vec" where
  "vert (v0, v1, v2) i = (if i = 0 then v0 else if i = 1 then v1 else v2)"

fun vertList :: "vertices \<Rightarrow> vec list" where
  "vertList (v0, v1, v2) = [v0, v1, v2]"

text \<open>
  \<^verbatim>\<open>vertices.map(v => ({x: obj.x + offsetX + v.x, y: obj.y + offsetY + v.y}))\<close>
\<close>

fun worldVerts :: "gameobject \<Rightarrow> real \<Rightarrow> real \<Rightarrow> vertices \<Rightarrow> vertices" where
  "worldVerts obj offsetX offsetY (v0, v1, v2) =
     (let f = (\<lambda>v. (obj_x obj + offsetX + fst v, obj_y obj + offsetY + snd v))
      in (f v0, f v1, f v2))"

text \<open>\<^verbatim>\<open>TriangleCollider.pointInTriangle(px, py, v0, v1, v2)\<close>\<close>

definition pointInTriangle :: "real \<Rightarrow> real \<Rightarrow> vec \<Rightarrow> vec \<Rightarrow> vec \<Rightarrow> bool" where
  "pointInTriangle px py v0 v1 v2 =
     (let dX = px - fst v2;
          dY = py - snd v2;
          dX21 = fst v2 - fst v1;
          dY12 = snd v1 - snd v2;
          D = dY12 * (fst v0 - fst v2) + dX21 * (snd v0 - snd v2);
          s = dY12 * dX + dX21 * dY;
          t = (snd v2 - snd v0) * dX + (fst v0 - fst v2) * dY
      in if D < 0 then s \<le> 0 \<and> t \<le> 0 \<and> s + t \<ge> D
         else s \<ge> 0 \<and> t \<ge> 0 \<and> s + t \<le> D)"

text \<open>\<^verbatim>\<open>pointInTriangle(px, py, ...verts)\<close>\<close>

fun pointInVerts :: "real \<Rightarrow> real \<Rightarrow> vertices \<Rightarrow> bool" where
  "pointInVerts px py (v0, v1, v2) = pointInTriangle px py v0 v1 v2"

text \<open>
  The body of the edge loop of \<^verbatim>\<open>TriangleCollider.isCollidingWith\<close>, circle case
  (lines 254-294 of \<^verbatim>\<open>src/components/GameObject.js\<close>): does the circle of centre \<open>(cx, cy)\<close> and the
  given radius reach the edge from \<open>v1\<close> to \<open>v2\<close>?

  When the edge has length zero, \<^verbatim>\<open>edge.x / edgeLength\<close> is \<^verbatim>\<open>0 / 0\<close>, that is NaN, and so
  are the projection, \<^verbatim>\<open>Math.min\<close> and \<^verbatim>\<open>Math.max\<close> of it, the closest point and
  \<^verbatim>\<open>distanceSquared\<close>; the comparison \<^verbatim>\<open>NaN < r * r\<close> is false, so the \<^verbatim>\<open>if\<close> is not taken.
\<close>

definition triangleEdgeHit :: "real \<Rightarrow> real \<Rightarrow> real \<Rightarrow> vec \<Rightarrow> vec \<Rightarrow> bool" where
  "triangleEdgeHit cx cy radius v1 v2 =
     (let edge = (fst v2 - fst v1, snd v2 - snd v1);
          toCircle = (cx - fst v1, cy - snd v1);
          edgeLength = sqrt (fst edge * fst edge + snd edge * snd edge)
      in if edgeLength = 0 then False
         else
           let edgeUnit = (fst edge / edgeLength, snd edge / edgeLength);
               projection = fst toCircle * fst edgeUnit + snd toCircle * snd edgeUnit;
               projectionClamped = max 0 (min projection edgeLength);
               closestPoint = (fst v1 + fst edgeUnit * projectionClamped,
                               snd v1 + snd edgeUnit * projectionClamped);
               dx = cx - fst closestPoint;
               dy = cy - snd closestPoint;
               distanceSquared = dx * dx + dy * dy
           in distanceSquared < radius * radius)"

text \<open>
  The same loop body as \<^verbatim>\<open>CircleCollider.isCollidingWith\<close> has it in its triangle case
  (lines 129-169), transcribed from there.
\<close>

definition circleEdgeHit :: "real \<Rightarrow> real \<Rightarrow> real \<Rightarrow> vec \<Rightarrow> vec \<Rightarrow> bool" where
  "circleEdgeHit cx cy radius v1 v2 =
     (let edge = (fst v2 - fst v1, snd v2 - snd v1);
          toCircle = (cx - fst v1, cy - snd v1);
          edgeLength = sqrt (fst edge * fst edge + snd edge * snd edge)
      in if edgeLength = 0 then False
         else
           let edgeUnit = (fst edge / edgeLength, snd edge / edgeLength);
               projection = fst toCircle * fst edgeUnit + snd toCircle * snd edgeUnit;
               projectionClamped = max 0 (min projection edgeLength);
               closestPoint = (fst v1 + fst edgeUnit * projectionClamped,
                               snd v1 + snd edgeUnit * projectionClamped);
               dx = cx - fst closestPoint;
               dy = cy - snd closestPoint;
               distanceSquared = dx * dx + dy * dy
           in distanceSquared < radius * radius)"

text \<open>
  \<^verbatim>\<open>TriangleCollider.isCollidingWith(other, selfObj, otherObj)\<close>; the first three
  arguments are the fields of \<^verbatim>\<open>this\<close>. A loop that returns \<^verbatim>\<open>true\<close> at the first hit and
  \<^verbatim>\<open>false\<close> after the last element is \<open>list_ex\<close>.
\<close>

definition TriangleCollider_isCollidingWith ::
  "vertices \<Rightarrow> real \<Rightarrow> real \<Rightarrow> collider \<Rightarrow> gameobject \<Rightarrow> gameobject \<Rightarrow> bool" where
  "TriangleCollider_isCollidingWith vs offsetX offsetY other selfObj otherObj =
     (let vertsA = worldVerts selfObj offsetX offsetY vs
      in case other of
           TriangleCollider ovs oX oY \<Rightarrow>
             (let vertsB = worldVerts otherObj oX oY ovs
              in if list_ex (\<lambda>va. pointInVerts (fst va) (snd va) vertsB) (vertList vertsA)
                 then True
                 else if list_ex (\<lambda>vb. pointInVerts (fst vb) (snd vb) vertsA) (vertList vertsB)
                 then True
                 else False)
         | BoxCollider oX oY w h \<Rightarrow>
             (let bx = obj_x otherObj + oX;
                  by = obj_y otherObj + oY
              in if list_ex (\<lambda>va. fst va \<ge> bx \<and> fst va \<le> bx + w \<and>
                                    snd va \<ge> by \<and> snd va \<le> by + h) (vertList vertsA)
                 then True
                 else
                   let boxCorners = [(bx, by), (bx + w, by), (bx, by + h), (bx + w, by + h)]
                   in if list_ex (\<lambda>corner. pointInVerts (fst corner) (snd corner) vertsA)
                           boxCorners
                      then True
                      else False)
         | CircleCollider oX oY r \<Rightarrow>
             (let cx = obj_x otherObj + oX + r;
                  cy = obj_y otherObj + oY + r;
                  verts = worldVerts selfObj offsetX offsetY vs
              in if pointInVerts cx cy verts then True
                 else list_ex (\<lambda>i. triangleEdgeHit cx cy r (vert verts i)
                                      (vert verts ((i + 1) mod 3))) [0, 1, 2]))"

text \<open>\<^verbatim>\<open>BoxCollider.isCollidingWith\<close>; the first four arguments are the fields of \<^verbatim>\<open>this\<close>.\<close>

definition BoxCollider_isCollidingWith ::
  "real \<Rightarrow> real \<Rightarrow> real \<Rightarrow> real \<Rightarrow> collider \<Rightarrow> gameobject \<Rightarrow> gameobject \<Rightarrow> bool" where
  "BoxCollider_isCollidingWith offsetX offsetY width height other selfObj otherObj =
     (case other of
        BoxCollider bOffsetX bOffsetY bWidth bHeight \<Rightarrow>
          (let ax = obj_x selfObj + offsetX;
               ay = obj_y selfObj + offsetY;
               bx = obj_x otherObj + bOffsetX;
               by = obj_y otherObj + bOffsetY
           in ax < bx + bWidth \<and> ax + width > bx \<and> ay < by + bHeight \<and> ay + height > by)
      | CircleCollider cOffsetX cOffsetY radius \<Rightarrow>
          (let rx = obj_x selfObj + offsetX;
               ry = obj_y selfObj + offsetY;
               cx = obj_x otherObj + cOffsetX + radius;
               cy = obj_y otherObj + cOffsetY + radius;
               closestX = max rx (min cx (rx + width));
               closestY = max ry (min cy (ry + height));
               dx = cx - closestX;
               dy = cy - closestY
           in dx * dx + dy * dy < radius * radius)
      | TriangleCollider vs tOffsetX tOffsetY \<Rightarrow>
          TriangleCollider_isCollidingWith vs tOffsetX tOffsetY
            (BoxCollider offsetX offsetY width height) otherObj selfObj)"

text \<open>\<^verbatim>\<open>CircleCollider.isCollidingWith\<close>; the first three arguments are the fields of \<^verbatim>\<open>this\<close>.\<close>

definition CircleCollider_isCollidingWith ::
  "real \<Rightarrow> real \<Rightarrow> real \<Rightarrow> collider \<Rightarrow> gameobject \<Rightarrow> gameobject \<Rightarrow> bool" where
  "CircleCollider_isCollidingWith offsetX offsetY radius other selfObj otherObj =
     (case other of
        CircleCollider bOffsetX bOffsetY bRadius \<Rightarrow>
          (let ax = obj_x selfObj + offsetX + radius;
               ay = obj_y selfObj + offsetY + radius;
               bx = obj_x otherObj + bOffsetX + bRadius;
               by = obj_y otherObj + bOffsetY + bRadius;
               dx = ax - bx;
               dy = ay - by;
               rSum = radius + bRadius
           in dx * dx + dy * dy < rSum * rSum)
      | BoxCollider bOffsetX bOffsetY bWidth bHeight \<Rightarrow>
          BoxCollider_isCollidingWith bOffsetX bOffsetY bWidth bHeight
            (CircleCollider offsetX offsetY radius) otherObj selfObj
      | TriangleCollider vs tOffsetX tOffsetY \<Rightarrow>
          (let cx = obj_x selfObj + offsetX + radius;
               cy = obj_y selfObj + offsetY + radius;
               verts = worldVerts otherObj tOffsetX tOffsetY vs
           in if pointInVerts cx cy verts then True
              else list_ex (\<lambda>i. circleEdgeHit cx cy radius (vert verts i)
                                   (vert verts ((i + 1) mod 3))) [0, 1, 2]))"

text \<open>The method call \<^verbatim>\<open>self.isCollidingWith(other, selfObj, otherObj)\<close>: dispatch on the class of \<^verbatim>\<open>self\<close>.\<close>

fun isCollidingWith :: "collider \<Rightarrow> collider \<Rightarrow> gameobject \<Rightarrow> gameobject \<Rightarrow> bool" where
  "isCollidingWith (BoxCollider offsetX offsetY width height) other selfObj otherObj =
     BoxCollider_isCollidingWith offsetX offsetY width height other selfObj otherObj"
| "isCollidingWith (CircleCollider offsetX offsetY radius) other selfObj otherObj =
     CircleCollider_isCollidingWith offsetX offsetY radius other selfObj otherObj"
| "isCollidingWith (TriangleCollider vs offsetX offsetY) other selfObj otherObj =
     TriangleCollider_isCollidingWith vs offsetX offsetY other selfObj otherObj"

text \<open>\<^verbatim>\<open>isColliding(a, b)\<close>\<close>

definition isColliding :: "gameobject \<Rightarrow> gameobject \<Rightarrow> bool" where
  "isColliding a b =
     (case (collider a, collider b) of
        (Some ca, Some cb) \<Rightarrow> isCollidingWith ca cb a b
      | _ \<Rightarrow> False)"

section \<open>Collision resolution\<close>

text \<open>
  \<^verbatim>\<open>closestPointOnSegment(px, py, ax, ay, bx, by)\<close>. When the segment has length zero,
  \<^verbatim>\<open>abLenSq\<close> and the numerator of \<^verbatim>\<open>t\<close> are both zero: \<^verbatim>\<open>t\<close> is \<^verbatim>\<open>0 / 0\<close>, NaN, which
  \<^verbatim>\<open>Math.min\<close> and \<^verbatim>\<open>Math.max\<close> pass on, and both coordinates of the returned point are NaN.
  That point is \<open>None\<close>.
\<close>

definition closestPointOnSegment ::
  "real \<Rightarrow> real \<Rightarrow> real \<Rightarrow> real \<Rightarrow> real \<Rightarrow> real \<Rightarrow> vec option" where
  "closestPointOnSegment px py ax ay bx by =
     (let abx = bx - ax;
          aby = by - ay;
          apx = px - ax;
          apy = py - ay;
          abLenSq = abx * abx + aby * aby
      in if abLenSq = 0 then None
         else
           let t = (apx * abx + apy * aby) / abLenSq;
               t = max 0 (min 1 t)
           in Some (ax + abx * t, ay + aby * t))"

text \<open>
  One round of the loop of \<^verbatim>\<open>closestPointOnTriangle\<close>, on the pair
  (\<^verbatim>\<open>closest\<close>, \<^verbatim>\<open>minDistSq\<close>): \<^verbatim>\<open>closest\<close> starts as \<^verbatim>\<open>null\<close> (\<open>None\<close>) and \<^verbatim>\<open>minDistSq\<close> as
  \<^verbatim>\<open>Infinity\<close> (\<open>None\<close>, above every real). For a NaN point \<^verbatim>\<open>distSq\<close> is NaN and
  \<^verbatim>\<open>distSq < minDistSq\<close> is false.
\<close>

definition closestStep ::
  "real \<Rightarrow> real \<Rightarrow> vertices \<Rightarrow> nat \<Rightarrow> vec option \<times> real option \<Rightarrow> vec option \<times> real option" where
  "closestStep px py verts i st =
     (let closest = fst st;
          minDistSq = snd st;
          v1 = vert verts i;
          v2 = vert verts ((i + 1) mod 3)
      in case closestPointOnSegment px py (fst v1) (snd v1) (fst v2) (snd v2) of
           None \<Rightarrow> (closest, minDistSq)
         | Some pt \<Rightarrow>
             (let dx = px - fst pt;
                  dy = py - snd pt;
                  distSq = dx * dx + dy * dy
              in if (case minDistSq of None \<Rightarrow> True | Some m \<Rightarrow> distSq < m)
                 then (Some pt, Some distSq)
                 else (closest, minDistSq)))"

text \<open>
  \<^verbatim>\<open>closestPointOnTriangle(px, py, verts)\<close>; \<open>None\<close> is the \<^verbatim>\<open>null\<close> that \<^verbatim>\<open>closest\<close>
  starts as. The test \<^verbatim>\<open>typeof TriangleCollider !== 'undefined'\<close> is true, the class being
  imported at the top of the file.
\<close>

definition closestPointOnTriangle :: "real \<Rightarrow> real \<Rightarrow> vertices \<Rightarrow> vec option" where
  "closestPointOnTriangle px py verts =
     (let closest = fst (fold (closestStep px py verts) [0, 1, 2] (None, None))
      in if pointInVerts px py verts then Some (px, py) else closest)"

text \<open>
  One round of the loop of \<^verbatim>\<open>TriangleCollider.getClosestSurfaceNormal\<close>, on the pair
  (\<^verbatim>\<open>minDist\<close>, \<^verbatim>\<open>closestNormal\<close>); \<^verbatim>\<open>minDist\<close> starts as \<^verbatim>\<open>Infinity\<close> (\<open>None\<close>). For an edge
  of length zero \<^verbatim>\<open>len\<close> is zero, the normal is \<^verbatim>\<open>0 / 0\<close> in both coordinates, \<^verbatim>\<open>dist\<close> is
  NaN and \<^verbatim>\<open>Math.abs(dist) < Math.abs(minDist)\<close> is false.
\<close>

definition normalStep ::
  "vec \<Rightarrow> vertices \<Rightarrow> nat \<Rightarrow> real option \<times> vec \<Rightarrow> real option \<times> vec" where
  "normalStep point verts i st =
     (let minDist = fst st;
          closestNormal = snd st;
          v1 = vert verts i;
          v2 = vert verts ((i + 1) mod 3);
          edge = (fst v2 - fst v1, snd v2 - snd v1);
          normal = (snd edge, - fst edge);
          len = sqrt (fst normal * fst normal + snd normal * snd normal)
      in if len = 0 then (minDist, closestNormal)
         else
           let normal = (fst normal / len, snd normal / len);
               px = fst point - fst v1;
               py = snd point - snd v1;
               dist = px * fst normal + py * snd normal
           in if (case minDist of None \<Rightarrow> True | Some m \<Rightarrow> \<bar>dist\<bar> < \<bar>m\<bar>)
              then (Some dist, normal)
              else (minDist, closestNormal))"

text \<open>\<^verbatim>\<open>getClosestSurfaceNormal(point, selfObj)\<close> of the triangle with the given fields.\<close>

definition getClosestSurfaceNormal ::
  "vertices \<Rightarrow> real \<Rightarrow> real \<Rightarrow> vec \<Rightarrow> gameobject \<Rightarrow> vec" where
  "getClosestSurfaceNormal vs offsetX offsetY point selfObj =
     (let verts = worldVerts selfObj offsetX offsetY vs
      in snd (fold (normalStep point verts) [0, 1, 2] (None, (0, 0))))"

text \<open>
  \<^verbatim>\<open>Math.atan2(y, x)\<close> on the reals. JavaScript tells \<^verbatim>\<open>-0\<close> from \<^verbatim>\<open>0\<close> in the first
  argument when \<open>x\<close> is negative (the result is \<open>-\<pi>\<close> rather than \<open>\<pi>\<close>, the same
  direction); the reals have one zero, and here the result is \<open>\<pi>\<close>.
\<close>

definition atan2 :: "real \<Rightarrow> real \<Rightarrow> real" where
  "atan2 y x =
     (if 0 < x then arctan (y / x)
      else if x < 0 then (if 0 \<le> y then arctan (y / x) + pi else arctan (y / x) - pi)
      else if 0 < y then pi / 2
      else if y < 0 then - (pi / 2)
      else 0)"

text \<open>
  The circle case of the two triangle branches of \<^verbatim>\<open>resolveCollision\<close> (lines 135-164
  with the triangle in \<^verbatim>\<open>a\<close>, lines 187-216 with the triangle in \<^verbatim>\<open>b\<close>; the two texts
  differ in the exchange of \<^verbatim>\<open>a\<close> and \<^verbatim>\<open>b\<close> only). \<open>tri\<close> is the body of the triangle,
  \<open>c\<close> the body of the circle; the result is the circle's body, the only one assigned to.

  \<^verbatim>\<open>closest.x\<close> on \<^verbatim>\<open>null\<close> raises. When \<^verbatim>\<open>dist\<close> is zero, \<^verbatim>\<open>dx\<close> and \<^verbatim>\<open>dy\<close> are zero as
  well, \<^verbatim>\<open>nx\<close> and \<^verbatim>\<open>ny\<close> are \<^verbatim>\<open>0 / 0\<close>, and \<^verbatim>\<open>c.x += nx * overlap\<close> stores NaN.
\<close>

definition resolveTriangleCircle ::
  "vertices \<Rightarrow> real \<Rightarrow> real \<Rightarrow> real \<Rightarrow> real \<Rightarrow> real \<Rightarrow> gameobject \<Rightarrow> gameobject \<Rightarrow>
     error + gameobject" where
  "resolveTriangleCircle vs tOffsetX tOffsetY cOffsetX cOffsetY radius tri c =
     (let verts = worldVerts tri tOffsetX tOffsetY vs;
          cx = obj_x c + cOffsetX + radius;
          cy = obj_y c + cOffsetY + radius
      in case closestPointOnTriangle cx cy verts of
           None \<Rightarrow> Inl TypeError
         | Some closest \<Rightarrow>
             (let dx = cx - fst closest;
                  dy = cy - snd closest;
                  dist = sqrt (dx * dx + dy * dy);
                  overlap = radius - dist
              in if overlap > 0 then
                   (if dist = 0 then Inl NotFinite
                    else
                      let nx = dx / dist;
                          ny = dy / dist;
                          c = c\<lparr>obj_x := obj_x c + nx * overlap\<rparr>;
                          c = c\<lparr>obj_y := obj_y c + ny * overlap\<rparr>;
                          vDotN = obj_vx c * nx + obj_vy c * ny
                      in if vDotN < 0 then
                           (let damping = 1;
                                c = c\<lparr>obj_vx := (obj_vx c - vDotN * nx) * damping\<rparr>;
                                c = c\<lparr>obj_vy := (obj_vy c - vDotN * ny) * damping\<rparr>
                            in Inr c)
                         else Inr c)
                 else Inr c))"

text \<open>
  The box case of the two triangle branches (lines 166-183 and 218-235), \<open>b\<close> the body
  of the box. No division here has a divisor that can be zero.
\<close>

definition resolveTriangleBox ::
  "vertices \<Rightarrow> real \<Rightarrow> real \<Rightarrow> gameobject \<Rightarrow> gameobject \<Rightarrow> gameobject" where
  "resolveTriangleBox vs tOffsetX tOffsetY tri b =
     (let center = (obj_x b + obj_width b / 2, obj_y b + obj_height b / 2);
          normal = getClosestSurfaceNormal vs tOffsetX tOffsetY center tri;
          b = b\<lparr>obj_x := obj_x b + fst normal * 2\<rparr>;
          b = b\<lparr>obj_y := obj_y b + snd normal * 2\<rparr>;
          vDotN = obj_vx b * fst normal + obj_vy b * snd normal;
          b = (if vDotN < 0
               then (let b = b\<lparr>obj_vx := obj_vx b - vDotN * fst normal\<rparr>
                     in b\<lparr>obj_vy := obj_vy b - vDotN * snd normal\<rparr>)
               else b)
      in b\<lparr>rotation := atan2 (snd normal) (fst normal) - pi / 2\<rparr>)"

text \<open>
  One triangle branch: the guard
  \<^verbatim>\<open>t.collider && t.collider.type === 'triangle' && d.collider && d.hasGravity\<close> and the
  two inner \<^verbatim>\<open>if\<close>s. \<open>Some\<close> is the branch returning, with the new body of \<open>d\<close>;
  \<open>None\<close> is control falling through to the code after the branch.
\<close>

definition triangleBranch :: "gameobject \<Rightarrow> gameobject \<Rightarrow> (error + gameobject) option" where
  "triangleBranch t d =
     (case collider t of
        Some (TriangleCollider vs tOffsetX tOffsetY) \<Rightarrow>
          (case collider d of
             Some dc \<Rightarrow>
               if hasGravity d then
                 (case dc of
                    CircleCollider cOffsetX cOffsetY radius \<Rightarrow>
                      Some (resolveTriangleCircle vs tOffsetX tOffsetY cOffsetX cOffsetY radius t d)
                  | BoxCollider bOffsetX bOffsetY bWidth bHeight \<Rightarrow>
                      Some (Inr (resolveTriangleBox vs tOffsetX tOffsetY t d))
                  | TriangleCollider dvs dOffsetX dOffsetY \<Rightarrow> None)
               else None
           | None \<Rightarrow> None)
      | _ \<Rightarrow> None)"

text \<open>
  The default path (lines 237-276). When \<^verbatim>\<open>totalMass\<close> is zero inside the guard, the
  shares are \<^verbatim>\<open>b.mass / 0\<close> and \<^verbatim>\<open>a.mass / 0\<close> (an infinity, or NaN when both masses are
  zero), \<^verbatim>\<open>dx\<close> and \<^verbatim>\<open>dy\<close> are positive, and the position stored is not finite.
\<close>

definition resolveDefault :: "gameobject \<Rightarrow> gameobject \<Rightarrow> error + gameobject \<times> gameobject" where
  "resolveDefault a b =
     (let overlapX = (obj_x a + obj_width a / 2) - (obj_x b + obj_width b / 2);
          overlapY = (obj_y a + obj_height a / 2) - (obj_y b + obj_height b / 2);
          halfWidths = (obj_width a + obj_width b) / 2;
          halfHeights = (obj_height a + obj_height b) / 2
      in if \<bar>overlapX\<bar> < halfWidths \<and> \<bar>overlapY\<bar> < halfHeights then
           (let dx = halfWidths - \<bar>overlapX\<bar>;
                dy = halfHeights - \<bar>overlapY\<bar>;
                totalMass = mass a + mass b
            in if totalMass = 0 then Inl NotFinite
               else
                 let aShare = mass b / totalMass;
                     bShare = mass a / totalMass
                 in if dx < dy then
                      (let ab = (if overlapX > 0
                                 then (a\<lparr>obj_x := obj_x a + dx * aShare\<rparr>,
                                       b\<lparr>obj_x := obj_x b - dx * bShare\<rparr>)
                                 else (a\<lparr>obj_x := obj_x a - dx * aShare\<rparr>,
                                       b\<lparr>obj_x := obj_x b + dx * bShare\<rparr>))
                       in Inr ((fst ab)\<lparr>obj_vx := 0\<rparr>, (snd ab)\<lparr>obj_vx := 0\<rparr>))
                    else
                      (let ab = (if overlapY > 0
                                 then (a\<lparr>obj_y := obj_y a + dy * aShare\<rparr>,
                                       b\<lparr>obj_y := obj_y b - dy * bShare\<rparr>)
                                 else (a\<lparr>obj_y := obj_y a - dy * aShare\<rparr>,
                                       b\<lparr>obj_y := obj_y b + dy * bShare\<rparr>))
                       in Inr ((fst ab)\<lparr>obj_vy := 0\<rparr>, (snd ab)\<lparr>obj_vy := 0\<rparr>)))
         else Inr (a, b))"

text \<open>
  \<^verbatim>\<open>resolveCollision(a, b)\<close>, for two distinct objects (the caller passes
  \<^verbatim>\<open>gameObjects[i]\<close> and \<^verbatim>\<open>gameObjects[j]\<close> with \<open>i < j\<close>): the result is the pair of
  bodies after the call.
\<close>

definition resolveCollision :: "gameobject \<Rightarrow> gameobject \<Rightarrow> error + gameobject \<times> gameobject" where
  "resolveCollision a b =
     (case triangleBranch a b of
        Some r \<Rightarrow> (case r of Inl e \<Rightarrow> Inl e | Inr b' \<Rightarrow> Inr (a, b'))
      | None \<Rightarrow>
          (case triangleBranch b a of
             Some r \<Rightarrow> (case r of Inl e \<Rightarrow> Inl e | Inr a' \<Rightarrow> Inr (a', b))
           | None \<Rightarrow> resolveDefault a b))"

section \<open>The tick\<close>










section \<open>Example scenes\<close>










text \<open>
  A static triangle with the right angle at the bottom left, as in \<^verbatim>\<open>init\<close> but smaller
  (the slope runs from \<open>(0, 0)\<close> to \<open>(40, 30)\<close>), and three balls of radius 10: one with
  its centre \<open>(10, 20)\<close> inside the triangle, one falling with its centre \<open>(23, 11)\<close> at
  distance 5 from the slope, and that one again at rest and without gravity.
\<close>

definition ramp :: gameobject where
  "ramp =
     (GameObject_constructor 0 0 40 30 100
        (Some (TriangleCollider ((0, 30), (0, 0), (40, 30)) 0 0)))\<lparr>hasGravity := False\<rparr>"

definition sunkBall :: gameobject where
  "sunkBall = GameObject_constructor 0 10 20 20 5 (Some (CircleCollider 0 0 10))"



text \<open>A box of 10 by 10 with its centre \<open>(10, 20)\<close> inside the same triangle.\<close>

definition sunkBox :: gameobject where
  "sunkBox = GameObject_constructor 5 15 10 10 2 (Some (BoxCollider 0 0 10 10))"

section \<open>Properties of the overlap tests\<close>

subsection \<open>Point in triangle\<close>


subsection \<open>Symmetry\<close>

lemma edgeHit_eq: "circleEdgeHit = triangleEdgeHit"
  by (intro ext) (simp add: circleEdgeHit_def triangleEdgeHit_def)

lemma sq_diff_swap: "(u - w) * (u - w) = (w - u) * (w - u)" for u w :: real
  by algebra

lemma circle_circle_symmetric:
  "CircleCollider_isCollidingWith ox oy r (CircleCollider ox' oy' r') o1 o2 =
   CircleCollider_isCollidingWith ox' oy' r' (CircleCollider ox oy r) o2 o1"
  unfolding CircleCollider_isCollidingWith_def collider.case Let_def
  by (simp only: sq_diff_swap [of "obj_x o1 + ox + r"] sq_diff_swap [of "obj_y o1 + oy + r"]
        add.commute [of r r'])

lemma box_box_symmetric:
  "BoxCollider_isCollidingWith ox oy w h (BoxCollider ox' oy' w' h') o1 o2 =
   BoxCollider_isCollidingWith ox' oy' w' h' (BoxCollider ox oy w h) o2 o1"
  unfolding BoxCollider_isCollidingWith_def collider.case Let_def by auto

lemma triangle_triangle_symmetric:
  "TriangleCollider_isCollidingWith vs ox oy (TriangleCollider vs' ox' oy') o1 o2 =
   TriangleCollider_isCollidingWith vs' ox' oy' (TriangleCollider vs ox oy) o2 o1"
  unfolding TriangleCollider_isCollidingWith_def collider.case Let_def by auto

lemma circle_triangle_symmetric:
  "CircleCollider_isCollidingWith ox oy r (TriangleCollider vs ox' oy') o1 o2 =
   TriangleCollider_isCollidingWith vs ox' oy' (CircleCollider ox oy r) o2 o1"
  unfolding CircleCollider_isCollidingWith_def TriangleCollider_isCollidingWith_def
    collider.case Let_def edgeHit_eq by simp

text \<open>
  Claim C2. For all nine combinations of box, circle and triangle and all positions of
  the two bodies, the overlap test of \<open>c1\<close> against \<open>c2\<close> returns what the test of
  \<open>c2\<close> against \<open>c1\<close> returns. Box against circle and box against triangle are mirrored
  by delegation; circle against triangle is written out in both classes.
\<close>

theorem isCollidingWith_symmetric:
  "isCollidingWith c1 c2 o1 o2 = isCollidingWith c2 c1 o2 o1"
proof (cases c1)
  case b1: (BoxCollider ox oy w h)
  show ?thesis
  proof (cases c2)
    case (BoxCollider ox' oy' w' h')
    with b1 show ?thesis by (simp add: box_box_symmetric)
  next
    case (CircleCollider ox' oy' r')
    with b1 show ?thesis by (simp add: CircleCollider_isCollidingWith_def)
  next
    case (TriangleCollider vs' ox' oy')
    with b1 show ?thesis by (simp add: BoxCollider_isCollidingWith_def)
  qed
next
  case c1: (CircleCollider ox oy r)
  show ?thesis
  proof (cases c2)
    case (BoxCollider ox' oy' w' h')
    with c1 show ?thesis by (simp add: CircleCollider_isCollidingWith_def)
  next
    case (CircleCollider ox' oy' r')
    with c1 show ?thesis by (simp add: circle_circle_symmetric)
  next
    case (TriangleCollider vs' ox' oy')
    with c1 show ?thesis by (simp add: circle_triangle_symmetric)
  qed
next
  case t1: (TriangleCollider vs ox oy)
  show ?thesis
  proof (cases c2)
    case (BoxCollider ox' oy' w' h')
    with t1 show ?thesis by (simp add: BoxCollider_isCollidingWith_def)
  next
    case (CircleCollider ox' oy' r')
    with t1 show ?thesis by (simp add: circle_triangle_symmetric)
  next
    case (TriangleCollider vs' ox' oy')
    with t1 show ?thesis by (simp add: triangle_triangle_symmetric)
  qed
qed

subsection \<open>Circle against circle\<close>



section \<open>Construction\<close>

text \<open>
  Construction with a mass of zero and with a negative mass: both calls give an object,
  and the object holds that mass.
\<close>

theorem constructor_accepts_nonpositive_mass:
  "GameObject_new 650 100 30 30 0 (Some (BoxCollider 0 0 30 30)) =
     Inr (GameObject_constructor 650 100 30 30 0 (Some (BoxCollider 0 0 30 30))) \<and>
   mass (GameObject_constructor 650 100 30 30 0 (Some (BoxCollider 0 0 30 30))) = 0 \<and>
   GameObject_new 650 100 30 30 (- 7) (Some (BoxCollider 0 0 30 30)) =
     Inr (GameObject_constructor 650 100 30 30 (- 7) (Some (BoxCollider 0 0 30 30))) \<and>
   mass (GameObject_constructor 650 100 30 30 (- 7) (Some (BoxCollider 0 0 30 30))) = - 7"
  by (simp add: GameObject_new_def GameObject_constructor_def)

text \<open>
  Claim C4, amended. Construction never fails: for every mass, zero and negative ones
  included, \<^verbatim>\<open>new GameObject\<close> gives an object that holds the mass and the other
  arguments as they were passed. There is no validation and no failure outcome.
\<close>

theorem constructor_stores_any_mass:
  "\<exists>obj. GameObject_new x y width height m c = Inr obj \<and> mass obj = m \<and>
      obj_x obj = x \<and> obj_y obj = y \<and> obj_width obj = width \<and> obj_height obj = height \<and>
      collider obj = c"
  by (simp add: GameObject_new_def GameObject_constructor_def)

section \<open>Properties of the resolution\<close>

subsection \<open>The default path\<close>






subsection \<open>Separation of two boxes\<close>





subsection \<open>Triangle against circle\<close>











subsection \<open>The gravity flag of the other body\<close>




subsection \<open>Triangle against box\<close>

lemma sqrt_900: "sqrt 900 = 30"
proof -
  have "sqrt ((30::real)\<^sup>2) = 30" by (simp del: power2_eq_square)
  then show ?thesis by simp
qed

lemma sqrt_2500: "sqrt 2500 = 50"
proof -
  have "sqrt ((50::real)\<^sup>2) = 50" by (simp del: power2_eq_square)
  then show ?thesis by simp
qed

lemma sqrt_1600: "sqrt 1600 = 40"
proof -
  have "sqrt ((40::real)\<^sup>2) = 40" by (simp del: power2_eq_square)
  then show ?thesis by simp
qed

lemma ramp_normal: "getClosestSurfaceNormal ((0, 30), (0, 0), (40, 30)) 0 0 (10, 20) ramp = (- 1, 0)"
  by (simp add: getClosestSurfaceNormal_def normalStep_def ramp_def GameObject_constructor_def
      Let_def sqrt_900 sqrt_2500 sqrt_1600)

text \<open>
  The push of a box out of a triangle has the fixed length 2 and can leave the two
  overlapping: the box inside the ramp moves from \<open>x = 5\<close> to \<open>x = 3\<close>, and the overlap
  test is still true.
\<close>

lemma triangle_box_residual_overlap:
  "isColliding ramp sunkBox \<and>
   (\<exists>b'. resolveCollision ramp sunkBox = Inr (ramp, b') \<and> obj_x b' = 3 \<and> obj_y b' = 15 \<and>
      isColliding ramp b')"
proof -
  have c: "collider ramp = Some (TriangleCollider ((0, 30), (0, 0), (40, 30)) 0 0)"
      "collider sunkBox = Some (BoxCollider 0 0 10 10)" "hasGravity sunkBox"
      "obj_x sunkBox = 5" "obj_y sunkBox = 15" "obj_width sunkBox = 10" "obj_height sunkBox = 10"
      "obj_x ramp = 0" "obj_y ramp = 0" "obj_vx sunkBox = 0" "obj_vy sunkBox = 0"
    by (simp_all add: ramp_def sunkBox_def GameObject_constructor_def)
  define b' where "b' = resolveTriangleBox ((0, 30), (0, 0), (40, 30)) 0 0 ramp sunkBox"
  have 1: "isColliding ramp sunkBox"
    by (simp add: isColliding_def c TriangleCollider_isCollidingWith_def pointInTriangle_def)
  have b: "obj_x b' = 3" "obj_y b' = 15" "collider b' = Some (BoxCollider 0 0 10 10)"
    by (simp_all add: b'_def resolveTriangleBox_def c ramp_normal Let_def)
  have 2: "resolveCollision ramp sunkBox = Inr (ramp, b')"
    by (simp add: resolveCollision_def triangleBranch_def c b'_def)
  have 3: "isColliding ramp b'"
    by (simp add: isColliding_def c b TriangleCollider_isCollidingWith_def pointInTriangle_def)
  from 1 2 3 b show ?thesis by blast
qed

subsection \<open>Distance zero\<close>

text \<open>
  An edge of length zero is passed over by every query that meets it: the edge tests of
  the two overlap methods are false for it, and the closest-point loop gets the NaN
  point, which it does not take.
\<close>

lemma zero_length_edge_skipped:
  "\<not> triangleEdgeHit cx cy radius v v"
  "\<not> circleEdgeHit cx cy radius v v"
  "closestPointOnSegment px py ax ay ax ay = None"
  "closestStep px py (v, v, v2) 0 st = st"
  by (simp_all add: triangleEdgeHit_def circleEdgeHit_def closestPointOnSegment_def
      closestStep_def)

lemma closest_sunk: "closestPointOnTriangle 10 20 ((0, 30), (0, 0), (40, 30)) = Some (10, 20)"
  by (simp add: closestPointOnTriangle_def pointInTriangle_def)

text \<open>
  Claim C3. A distance of zero between the centre of a circle and the closest point of
  a triangle is not guarded. For the ball whose centre lies inside the ramp the overlap
  test is true, \<^verbatim>\<open>closestPointOnTriangle\<close> returns the centre itself, the distance is zero
  and the overlap is the radius; \<^verbatim>\<open>resolveCollision\<close> divides by the distance and stores
  NaN in the position of the ball, in either order of the arguments.
\<close>

theorem sunk_ball_not_finite:
  "isColliding ramp sunkBall \<and>
   closestPointOnTriangle (obj_x sunkBall + 0 + 10) (obj_y sunkBall + 0 + 10)
     (worldVerts ramp 0 0 ((0, 30), (0, 0), (40, 30))) = Some (10, 20) \<and>
   obj_x sunkBall + 0 + 10 = 10 \<and> obj_y sunkBall + 0 + 10 = 20 \<and>
   resolveCollision ramp sunkBall = Inl NotFinite \<and>
   resolveCollision sunkBall ramp = Inl NotFinite"
proof -
  have c: "collider ramp = Some (TriangleCollider ((0, 30), (0, 0), (40, 30)) 0 0)"
      "collider sunkBall = Some (CircleCollider 0 0 10)" "hasGravity sunkBall"
      "obj_x sunkBall = 0" "obj_y sunkBall = 10" "obj_x ramp = 0" "obj_y ramp = 0"
    by (simp_all add: ramp_def sunkBall_def GameObject_constructor_def)
  have 1: "isColliding ramp sunkBall"
    by (simp add: isColliding_def c TriangleCollider_isCollidingWith_def pointInTriangle_def)
  have r: "resolveTriangleCircle ((0, 30), (0, 0), (40, 30)) 0 0 0 0 10 ramp sunkBall = Inl NotFinite"
    by (simp add: resolveTriangleCircle_def c closest_sunk)
  have 2: "resolveCollision ramp sunkBall = Inl NotFinite"
    by (simp add: resolveCollision_def triangleBranch_def c r)
  have 3: "resolveCollision sunkBall ramp = Inl NotFinite"
    by (simp add: resolveCollision_def triangleBranch_def c r)
  have 4: "closestPointOnTriangle (obj_x sunkBall + 0 + 10) (obj_y sunkBall + 0 + 10)
     (worldVerts ramp 0 0 ((0, 30), (0, 0), (40, 30))) = Some (10, 20)"
    by (simp add: c closest_sunk)
  from 1 2 3 4 show ?thesis by (simp add: c)
qed

section \<open>Properties of the tick\<close>











end
